theory Spec2Isabelle
  imports Main "HOL-Library.Sublist"
begin

section \<open>Python values, exceptions and calls to collaborators\<close>

text \<open>
  The program is \<^verbatim>\<open>ResearchAssistant/app.py\<close>: five tool functions, a prompt template,
  and a Flask endpoint that hands the question to an agent of a third-party framework.
  A Python \<^verbatim>\<open>str\<close> is modelled as a \<^typ>\<open>string\<close>, one \<^typ>\<open>char\<close> for each character of
  the \<^verbatim>\<open>str\<close>.

  An exception is a value. Only instances of \<^verbatim>\<open>Exception\<close> are modelled: they are the
  failures of a collaborator (network error, bad input, timeout). \<^verbatim>\<open>KeyboardInterrupt\<close>
  and \<^verbatim>\<open>SystemExit\<close> derive from \<^verbatim>\<open>BaseException\<close> only, are signals to the process
  and not failures of a call, and are outside the model. The string of an exception
  is what \<^verbatim>\<open>str(e)\<close> gives.
\<close>

datatype exc_class =
    DisambiguationError "string list"
  | PageError
  | IndexError
  | KeyError
  | AttributeError
  | TypeError
  | OtherException

datatype py_exception = PyExc (exc_class: exc_class) (exc_str: string)

text \<open>
  The values \<^verbatim>\<open>json.loads\<close> produces. A float is given by its \<^verbatim>\<open>repr\<close>; a dict by its
  items in insertion order, the keys distinct.
\<close>

datatype pyjson =
    JNull
  | JBool bool
  | JInt int
  | JFloat string
  | JStr string
  | JArr "pyjson list"
  | JObj "(string \<times> pyjson) list"

text \<open>
  The calls that leave the module, as they are recorded in the history of a run:
  \<^verbatim>\<open>wikipedia.search\<close>, \<^verbatim>\<open>wikipedia.page\<close>, the lazy property \<^verbatim>\<open>page.summary\<close>,
  \<^verbatim>\<open>DDGS().text\<close>, the built-in \<^verbatim>\<open>eval\<close>, \<^verbatim>\<open>requests.get\<close> and \<^verbatim>\<open>agent.run\<close>.
\<close>

datatype WikipediaPage = WikipediaPage (resolved_title: string)

datatype call =
    WikipediaSearch string
  | WikipediaPageCall string
  | PageSummary WikipediaPage
  | DDGSText string
  | Eval string
  | RequestsGet string
  | AgentRun pyjson

text \<open>
  A computation takes the history of calls made so far and returns either the
  exception it raises (\<open>Inl\<close>) or its value (\<open>Inr\<close>), with the history extended by
  the calls it made.
\<close>

type_synonym 'a io = "call list \<Rightarrow> (py_exception + 'a) \<times> call list"

definition return_io :: "'a \<Rightarrow> 'a io" where
  "return_io x = (\<lambda>h. (Inr x, h))"

definition lift_io :: "py_exception + 'a \<Rightarrow> 'a io" where
  "lift_io r = (\<lambda>h. (r, h))"

definition bind_io :: "'a io \<Rightarrow> ('a \<Rightarrow> 'b io) \<Rightarrow> 'b io" where
  "bind_io m f = (\<lambda>h. case m h of (Inl e, h') \<Rightarrow> (Inl e, h') | (Inr x, h') \<Rightarrow> f x h')"

text \<open>
  \<^verbatim>\<open>try: m  except ...: handler\<close>. The handler gets the exception and re-raises the
  ones no \<^verbatim>\<open>except\<close> clause matches.
\<close>

definition try_io :: "'a io \<Rightarrow> (py_exception \<Rightarrow> 'a io) \<Rightarrow> 'a io" where
  "try_io m handler = (\<lambda>h. case m h of (Inl e, h') \<Rightarrow> handler e h' | (Inr x, h') \<Rightarrow> (Inr x, h'))"

text \<open>
  A call to a collaborator: its answer may depend on the history, and the call is
  appended to the history.
\<close>

definition external :: "call \<Rightarrow> (call list \<Rightarrow> py_exception + 'a) \<Rightarrow> 'a io" where
  "external c answer = (\<lambda>h. (answer h, h @ [c]))"

subsection \<open>Strings\<close>

definition newline :: string where
  "newline = ''\<newline>''"

definition apostrophe :: string where
  "apostrophe = [CHR 0x27]"

text \<open>\<^verbatim>\<open>s.strip(chars)\<close>: drops the leading and the trailing characters that are in \<open>chars\<close>.\<close>

definition strip :: "string \<Rightarrow> string \<Rightarrow> string" where
  "strip chars s = rev (dropWhile (\<lambda>c. c \<in> set chars) (rev (dropWhile (\<lambda>c. c \<in> set chars) s)))"

text \<open>\<^verbatim>\<open>s.replace(a, b)\<close> for one-character \<open>a\<close> and \<open>b\<close>.\<close>

definition replace :: "char \<Rightarrow> char \<Rightarrow> string \<Rightarrow> string" where
  "replace a b s = map (\<lambda>c. if c = a then b else c) s"

text \<open>\<^verbatim>\<open>sep.join(xs)\<close>.\<close>

fun join :: "string \<Rightarrow> string list \<Rightarrow> string" where
  "join sep [] = []"
| "join sep [x] = x"
| "join sep (x # y # ys) = x @ sep @ join sep (y # ys)"

text \<open>\<^verbatim>\<open>str(n)\<close> for an \<^verbatim>\<open>int\<close>.\<close>

function str_nat :: "nat \<Rightarrow> string" where
  "str_nat n =
     (if n < 10 then [''0123456789'' ! n]
      else str_nat (n div 10) @ [''0123456789'' ! (n mod 10)])"
  by pat_completeness auto
termination
  by (relation "measure id") auto

definition str_int :: "int \<Rightarrow> string" where
  "str_int i = (if i < 0 then CHR ''-'' # str_nat (nat (- i)) else str_nat (nat i))"

text \<open>A loop that stops at the first exception.\<close>

fun map_result :: "('a \<Rightarrow> py_exception + 'b) \<Rightarrow> 'a list \<Rightarrow> py_exception + 'b list" where
  "map_result f [] = Inr []"
| "map_result f (x # xs) =
     (case f x of
        Inl e \<Rightarrow> Inl e
      | Inr y \<Rightarrow> (case map_result f xs of Inl e \<Rightarrow> Inl e | Inr ys \<Rightarrow> Inr (y # ys)))"

subsection \<open>The built-in \<^verbatim>\<open>eval\<close>\<close>

text \<open>
  What \<^verbatim>\<open>eval\<close> returns: an \<^verbatim>\<open>int\<close>, or a value of another type (a float, the empty
  tuple, \<^verbatim>\<open>Ellipsis\<close>), given by the text \<^verbatim>\<open>str\<close> renders it as.
\<close>

datatype pyval = PyInt int | PyOther string

fun py_str :: "pyval \<Rightarrow> string" where
  "py_str (PyInt n) = str_int n"
| "py_str (PyOther s) = s"

text \<open>
  Python's expression semantics is modelled on integer arithmetic: the expressions
  of the grammar
  \<^verbatim>\<open>sum ::= term (('+'|'-') term)*\<close>, \<^verbatim>\<open>term ::= factor ('*' factor)*\<close>,
  \<^verbatim>\<open>factor ::= ('+'|'-') factor | atom\<close>, \<^verbatim>\<open>atom ::= NUMBER | '(' sum ')'\<close>,
  with blanks between the tokens, where a \<^verbatim>\<open>NUMBER\<close> is \<^verbatim>\<open>0\<close> or a run of digits that
  does not start with \<^verbatim>\<open>0\<close>, and of at most 100 characters (far below the
  interpreter's limits on nesting and on the digits of an integer). On every other
  string (true division, floor division, powers, floats, calls, the empty tuple,
  \<^verbatim>\<open>Ellipsis\<close>, syntax errors) the result of \<^verbatim>\<open>eval\<close> is a parameter of the model.
\<close>

datatype token = TNum nat | TPlus | TMinus | TStar | TLParen | TRParen

definition is_digit :: "char \<Rightarrow> bool" where
  "is_digit c = (c \<in> set ''0123456789'')"

definition digit_val :: "char \<Rightarrow> nat" where
  "digit_val c = of_char c - 48"

fun flush :: "nat option \<Rightarrow> token list" where
  "flush None = []"
| "flush (Some n) = [TNum n]"

fun symbol_token :: "char \<Rightarrow> token list option" where
  "symbol_token c =
     (if c = CHR ''+'' then Some [TPlus]
      else if c = CHR ''-'' then Some [TMinus]
      else if c = CHR ''*'' then Some [TStar]
      else if c = CHR ''('' then Some [TLParen]
      else if c = CHR '')'' then Some [TRParen]
      else if c = CHR '' '' then Some []
      else None)"

text \<open>
  The tokens of a string, \<open>None\<close> when a character or a number is outside the
  fragment. \<open>cur\<close> is the number being read.
\<close>

fun tokenize :: "nat option \<Rightarrow> string \<Rightarrow> token list option" where
  "tokenize cur [] = Some (flush cur)"
| "tokenize cur (c # cs) =
     (if is_digit c then
        (case cur of
           None \<Rightarrow> tokenize (Some (digit_val c)) cs
         | Some n \<Rightarrow> if n = 0 then None else tokenize (Some (10 * n + digit_val c)) cs)
      else
        (case symbol_token c of
           None \<Rightarrow> None
         | Some ts \<Rightarrow>
             (case tokenize None cs of
                None \<Rightarrow> None
              | Some rest \<Rightarrow> Some (flush cur @ ts @ rest))))"

text \<open>
  Recursive descent over the tokens, one case for each rule of the grammar
  (\<open>NSumRest acc\<close> and \<open>NTermRest acc\<close> are the repetitions, with the value read so
  far). The result is the value and the tokens left. The first argument bounds the
  depth of the descent.
\<close>

datatype grammar_rule = NSum | NSumRest int | NTerm | NTermRest int | NFactor | NAtom

primrec descend :: "nat \<Rightarrow> grammar_rule \<Rightarrow> token list \<Rightarrow> (int \<times> token list) option" where
  "descend 0 nt ts = None"
| "descend (Suc n) nt ts =
     (case nt of
        NSum \<Rightarrow>
          (case descend n NTerm ts of None \<Rightarrow> None | Some (v, r) \<Rightarrow> descend n (NSumRest v) r)
      | NSumRest acc \<Rightarrow>
          (case ts of
             TPlus # ts' \<Rightarrow>
               (case descend n NTerm ts' of
                  None \<Rightarrow> None
                | Some (v, r) \<Rightarrow> descend n (NSumRest (acc + v)) r)
           | TMinus # ts' \<Rightarrow>
               (case descend n NTerm ts' of
                  None \<Rightarrow> None
                | Some (v, r) \<Rightarrow> descend n (NSumRest (acc - v)) r)
           | _ \<Rightarrow> Some (acc, ts))
      | NTerm \<Rightarrow>
          (case descend n NFactor ts of None \<Rightarrow> None | Some (v, r) \<Rightarrow> descend n (NTermRest v) r)
      | NTermRest acc \<Rightarrow>
          (case ts of
             TStar # ts' \<Rightarrow>
               (case descend n NFactor ts' of
                  None \<Rightarrow> None
                | Some (v, r) \<Rightarrow> descend n (NTermRest (acc * v)) r)
           | _ \<Rightarrow> Some (acc, ts))
      | NFactor \<Rightarrow>
          (case ts of
             TPlus # ts' \<Rightarrow> descend n NFactor ts'
           | TMinus # ts' \<Rightarrow>
               (case descend n NFactor ts' of None \<Rightarrow> None | Some (v, r) \<Rightarrow> Some (- v, r))
           | _ \<Rightarrow> descend n NAtom ts)
      | NAtom \<Rightarrow>
          (case ts of
             TNum k # ts' \<Rightarrow> Some (int k, ts')
           | TLParen # ts' \<Rightarrow>
               (case descend n NSum ts' of
                  Some (v, TRParen # r) \<Rightarrow> Some (v, r)
                | _ \<Rightarrow> None)
           | _ \<Rightarrow> None))"

definition int_expression :: "string \<Rightarrow> int option" where
  "int_expression s =
     (if length s \<le> 100 then
        (case tokenize None s of
           None \<Rightarrow> None
         | Some ts \<Rightarrow>
             (case descend (4 * length ts + 4) NSum ts of
                Some (v, []) \<Rightarrow> Some v
              | _ \<Rightarrow> None))
      else None)"

section \<open>The collaborators\<close>

text \<open>
  A response of \<^verbatim>\<open>requests.get\<close>: what \<^verbatim>\<open>raise_for_status()\<close> raises (if anything), the
  attribute \<^verbatim>\<open>text\<close>, and the result of \<^verbatim>\<open>json()\<close>.
\<close>

record http_response =
  raise_for_status :: "py_exception option"
  resp_text :: string
  resp_json :: "py_exception + pyjson"

text \<open>
  An element of \<^verbatim>\<open>xml.etree.ElementTree\<close>: its tag, its attribute \<^verbatim>\<open>text\<close> (which may be
  \<^verbatim>\<open>None\<close>) and its children.
\<close>

datatype element = Element (elem_tag: string) (elem_text: "string option") (elem_children: "element list")

text \<open>
  Everything the module calls and does not define is a parameter of the model:
  the libraries (\<^verbatim>\<open>wikipedia\<close>, \<^verbatim>\<open>duckduckgo_search\<close>, \<^verbatim>\<open>requests\<close>, the XML parser), the
  agent of the framework behind \<^verbatim>\<open>agent.run\<close>, the built-in \<^verbatim>\<open>eval\<close> outside integer
  arithmetic, and the built-ins \<^verbatim>\<open>repr\<close> of a \<^verbatim>\<open>str\<close> and \<^verbatim>\<open>str\<close> of a value that is not a
  \<^verbatim>\<open>str\<close>. A call that leaves the process gets the history of the calls before it.
  \<open>ddgs_text\<close> stands for the whole \<^verbatim>\<open>with DDGS() as ddgs: list(ddgs.text(query, max_results=3))\<close>;
  a result of it is a dict from \<^verbatim>\<open>str\<close> to \<^verbatim>\<open>str\<close>, given by its items.
\<close>

record env =
  wikipedia_search :: "call list \<Rightarrow> string \<Rightarrow> py_exception + string list"
  wikipedia_page :: "call list \<Rightarrow> string \<Rightarrow> py_exception + WikipediaPage"
  page_summary :: "call list \<Rightarrow> WikipediaPage \<Rightarrow> py_exception + string"
  ddgs_text :: "call list \<Rightarrow> string \<Rightarrow> py_exception + (string \<times> string) list list"
  eval_other :: "call list \<Rightarrow> string \<Rightarrow> py_exception + pyval"
  requests_get :: "call list \<Rightarrow> string \<Rightarrow> py_exception + http_response"
  fromstring :: "string \<Rightarrow> py_exception + element"
  repr_str :: "string \<Rightarrow> string"
  str_other :: "pyjson \<Rightarrow> string"
  agent_run :: "call list \<Rightarrow> pyjson \<Rightarrow> py_exception + string"

text \<open>\<^verbatim>\<open>eval(expression)\<close>: integer arithmetic is computed, the rest is the parameter.\<close>

definition builtin_eval :: "env \<Rightarrow> string \<Rightarrow> pyval io" where
  "builtin_eval env expression =
     external (Eval expression)
       (\<lambda>h. case int_expression expression of
              Some n \<Rightarrow> Inr (PyInt n)
            | None \<Rightarrow> eval_other env h expression)"

section \<open>The tools\<close>

subsection \<open>\<^verbatim>\<open>safe_wikipedia_search\<close>\<close>

text \<open>
  The two lines \<^verbatim>\<open>page = wikipedia.page(t, auto_suggest=False)\<close> and
  \<^verbatim>\<open>return page.summary[0:500]\<close>, which the function has twice.
\<close>

definition summary_of_page :: "env \<Rightarrow> string \<Rightarrow> string io" where
  "summary_of_page env t =
     bind_io (external (WikipediaPageCall t) (\<lambda>h. wikipedia_page env h t)) (\<lambda>page.
     bind_io (external (PageSummary page) (\<lambda>h. page_summary env h page)) (\<lambda>summary.
     return_io (take 500 summary)))"

text \<open>\<^verbatim>\<open>query.strip('"\'').replace('+', ' ')\<close>, the first line of two tools.\<close>

definition clean_query :: "string \<Rightarrow> string" where
  "clean_query query = replace (CHR ''+'') (CHR '' '') (strip [CHR 0x22, CHR 0x27] query)"

definition wikipedia_body :: "env \<Rightarrow> string \<Rightarrow> string io" where
  "wikipedia_body env query =
     bind_io (external (WikipediaSearch query) (\<lambda>h. wikipedia_search env h query)) (\<lambda>search_results.
       case search_results of
         [] \<Rightarrow> return_io (''No Wikipedia articles found for '' @ apostrophe @ query @ apostrophe)
       | page_title # _ \<Rightarrow> summary_of_page env page_title)"

text \<open>\<^verbatim>\<open>e.options[0]\<close> raises \<^verbatim>\<open>IndexError\<close> on an empty list.\<close>

definition first_option :: "string list \<Rightarrow> py_exception + string" where
  "first_option options =
     (case options of
        [] \<Rightarrow> Inl (PyExc IndexError ''list index out of range'')
      | x # _ \<Rightarrow> Inr x)"

definition wikipedia_handler :: "env \<Rightarrow> string \<Rightarrow> py_exception \<Rightarrow> string io" where
  "wikipedia_handler env query e =
     (case exc_class e of
        DisambiguationError options \<Rightarrow>
          try_io
            (bind_io (lift_io (first_option options)) (\<lambda>t. summary_of_page env t))
            (\<lambda>_. return_io (''Multiple Wikipedia articles found for '' @ apostrophe @ query @ apostrophe
                             @ ''. Please be more specific.''))
      | PageError \<Rightarrow>
          return_io (''No Wikipedia article found for '' @ apostrophe @ query @ apostrophe)
      | _ \<Rightarrow>
          return_io (''An error occurred while searching Wikipedia: '' @ exc_str e))"

definition safe_wikipedia_search :: "env \<Rightarrow> string \<Rightarrow> string io" where
  "safe_wikipedia_search env query =
     try_io (wikipedia_body env (clean_query query)) (wikipedia_handler env (clean_query query))"

subsection \<open>\<^verbatim>\<open>safe_duckduckgo_search\<close>\<close>

text \<open>The body of the loop over the results; \<^verbatim>\<open>r['title']\<close> raises \<^verbatim>\<open>KeyError\<close>.\<close>

definition format_result :: "env \<Rightarrow> (string \<times> string) list \<Rightarrow> py_exception + string" where
  "format_result env r =
     (let link = (case map_of r ''link'' of Some l \<Rightarrow> l | None \<Rightarrow> ''No link available'');
          body = (case map_of r ''body'' of Some b \<Rightarrow> take 200 b @ ''...'' | None \<Rightarrow> [])
      in case map_of r ''title'' of
           None \<Rightarrow> Inl (PyExc KeyError (repr_str env ''title''))
         | Some t \<Rightarrow>
             Inr (''- '' @ t @ newline @ ''  '' @ body @ newline @ ''  Source: '' @ link))"

definition safe_duckduckgo_search :: "env \<Rightarrow> string \<Rightarrow> string io" where
  "safe_duckduckgo_search env query =
     try_io
       (bind_io (external (DDGSText (clean_query query)) (\<lambda>h. ddgs_text env h (clean_query query)))
          (\<lambda>results.
            if results = [] then return_io ''No results found on DuckDuckGo.''
            else
              bind_io (lift_io (map_result (format_result env) results)) (\<lambda>formatted_results.
              return_io (join (newline @ newline) formatted_results))))
       (\<lambda>e. return_io (''An error occurred while searching DuckDuckGo: '' @ exc_str e))"

subsection \<open>\<^verbatim>\<open>safe_math_eval\<close>\<close>

definition allowed_chars :: string where
  "allowed_chars = ''0123456789+-*/(). ''"

definition invalid_expression :: string where
  "invalid_expression = ''Invalid mathematical expression. Only basic operations are allowed.''"

definition safe_math_eval :: "env \<Rightarrow> string \<Rightarrow> string io" where
  "safe_math_eval env expression =
     try_io
       (if \<not> list_all (\<lambda>c. c \<in> set allowed_chars) expression
        then return_io invalid_expression
        else
          bind_io (builtin_eval env expression) (\<lambda>result.
          return_io (py_str result)))
       (\<lambda>e. return_io (''Error evaluating mathematical expression: '' @ exc_str e))"

subsection \<open>\<^verbatim>\<open>search_arxiv\<close>\<close>

text \<open>
  The wording of the messages of the interpreter's own \<^verbatim>\<open>AttributeError\<close> and
  \<^verbatim>\<open>TypeError\<close> is CPython 3.11's.
\<close>

definition check_status :: "http_response \<Rightarrow> py_exception + unit" where
  "check_status response =
     (case raise_for_status response of Some e \<Rightarrow> Inl e | None \<Rightarrow> Inr ())"

definition atom_ns :: string where
  "atom_ns = ''{http://www.w3.org/2005/Atom}''"

text \<open>\<^verbatim>\<open>entry.find(path).text\<close>: \<^verbatim>\<open>find\<close> gives the first child with the tag, or \<^verbatim>\<open>None\<close>.\<close>

definition find_text :: "element \<Rightarrow> string \<Rightarrow> py_exception + string option" where
  "find_text entry path =
     (case find (\<lambda>c. elem_tag c = path) (elem_children entry) of
        None \<Rightarrow> Inl (PyExc AttributeError (apostrophe @ ''NoneType'' @ apostrophe
                    @ '' object has no attribute '' @ apostrophe @ ''text'' @ apostrophe))
      | Some c \<Rightarrow> Inr (elem_text c))"

text \<open>An optional \<^verbatim>\<open>str\<close> inside an f-string.\<close>

definition format_optional :: "string option \<Rightarrow> string" where
  "format_optional v = (case v of None \<Rightarrow> ''None'' | Some s \<Rightarrow> s)"

definition format_entry :: "element \<Rightarrow> py_exception + string" where
  "format_entry entry =
     (case find_text entry (atom_ns @ ''title'') of
        Inl e \<Rightarrow> Inl e
      | Inr title \<Rightarrow>
     (case find_text entry (atom_ns @ ''summary'') of
        Inl e \<Rightarrow> Inl e
      | Inr summary \<Rightarrow>
     (case find_text entry (atom_ns @ ''id'') of
        Inl e \<Rightarrow> Inl e
      | Inr link \<Rightarrow>
     (case summary of
        None \<Rightarrow> Inl (PyExc TypeError (apostrophe @ ''NoneType'' @ apostrophe
                    @ '' object is not subscriptable''))
      | Some s \<Rightarrow>
          Inr (''Title: '' @ format_optional title @ newline
               @ ''Link: '' @ format_optional link @ newline
               @ ''Summary: '' @ take 200 s @ ''...'' @ newline)))))"

definition arxiv_url :: "string \<Rightarrow> string" where
  "arxiv_url query =
     ''http://export.arxiv.org/api/query?search_query=all:'' @ query @ ''&start=0&max_results=3''"

definition arxiv_body :: "env \<Rightarrow> string \<Rightarrow> string io" where
  "arxiv_body env query =
     bind_io (external (RequestsGet (arxiv_url query)) (\<lambda>h. requests_get env h (arxiv_url query)))
       (\<lambda>response.
     bind_io (lift_io (check_status response)) (\<lambda>_.
     bind_io (lift_io (fromstring env (resp_text response))) (\<lambda>root.
     bind_io (lift_io (map_result format_entry
                (filter (\<lambda>c. elem_tag c = atom_ns @ ''entry'') (elem_children root)))) (\<lambda>results.
     return_io (if results = [] then ''No results found on arXiv.'' else join newline results)))))"

definition search_arxiv :: "env \<Rightarrow> string \<Rightarrow> string io" where
  "search_arxiv env query =
     (if query = [] then return_io ''No query provided.''
      else
        try_io (arxiv_body env query)
          (\<lambda>e. return_io (''Error searching ArXiv: '' @ exc_str e)))"

subsection \<open>\<^verbatim>\<open>search_pubmed\<close>\<close>

fun type_name :: "pyjson \<Rightarrow> string" where
  "type_name JNull = ''NoneType''"
| "type_name (JBool b) = ''bool''"
| "type_name (JInt i) = ''int''"
| "type_name (JFloat r) = ''float''"
| "type_name (JStr s) = ''str''"
| "type_name (JArr xs) = ''list''"
| "type_name (JObj items) = ''dict''"

text \<open>The truth value of a value, as \<^verbatim>\<open>not v\<close> and \<^verbatim>\<open>if v\<close> take it.\<close>

fun truthy :: "pyjson \<Rightarrow> bool" where
  "truthy JNull = False"
| "truthy (JBool b) = b"
| "truthy (JInt i) = (i \<noteq> 0)"
| "truthy (JFloat r) = (r \<noteq> ''0.0'' \<and> r \<noteq> ''-0.0'')"
| "truthy (JStr s) = (s \<noteq> [])"
| "truthy (JArr xs) = (xs \<noteq> [])"
| "truthy (JObj items) = (items \<noteq> [])"

text \<open>\<^verbatim>\<open>v.get(key, dflt)\<close>: only a dict has the method.\<close>

definition dict_get :: "pyjson \<Rightarrow> string \<Rightarrow> pyjson \<Rightarrow> py_exception + pyjson" where
  "dict_get v key dflt =
     (case v of
        JObj items \<Rightarrow> Inr (case map_of items key of Some x \<Rightarrow> x | None \<Rightarrow> dflt)
      | _ \<Rightarrow> Inl (PyExc AttributeError (apostrophe @ type_name v @ apostrophe
                    @ '' object has no attribute '' @ apostrophe @ ''get'' @ apostrophe)))"

text \<open>\<^verbatim>\<open>v[key]\<close> for a \<^verbatim>\<open>str\<close> key.\<close>

definition subscript :: "env \<Rightarrow> pyjson \<Rightarrow> string \<Rightarrow> py_exception + pyjson" where
  "subscript env v key =
     (case v of
        JObj items \<Rightarrow>
          (case map_of items key of
             Some x \<Rightarrow> Inr x
           | None \<Rightarrow> Inl (PyExc KeyError (repr_str env key)))
      | JArr xs \<Rightarrow> Inl (PyExc TypeError ''list indices must be integers or slices, not str'')
      | JStr s \<Rightarrow> Inl (PyExc TypeError (''string indices must be integers, not ''
                         @ apostrophe @ ''str'' @ apostrophe))
      | _ \<Rightarrow> Inl (PyExc TypeError (apostrophe @ type_name v @ apostrophe
                    @ '' object is not subscriptable'')))"

text \<open>
  The items \<^verbatim>\<open>",".join(ids)\<close> and \<^verbatim>\<open>for id in ids\<close> go through: the elements of a list,
  the characters of a \<^verbatim>\<open>str\<close>, the keys of a dict. \<^verbatim>\<open>join\<close> raises \<^verbatim>\<open>TypeError\<close> on a value
  that is not iterable and on the first item that is not a \<^verbatim>\<open>str\<close>.
\<close>

fun str_items :: "nat \<Rightarrow> pyjson list \<Rightarrow> py_exception + string list" where
  "str_items i [] = Inr []"
| "str_items i (JStr s # xs) =
     (case str_items (Suc i) xs of Inl e \<Rightarrow> Inl e | Inr ys \<Rightarrow> Inr (s # ys))"
| "str_items i (x # xs) =
     Inl (PyExc TypeError (''sequence item '' @ str_nat i @ '': expected str instance, ''
            @ type_name x @ '' found''))"

definition join_items :: "pyjson \<Rightarrow> py_exception + string list" where
  "join_items ids =
     (case ids of
        JArr xs \<Rightarrow> str_items 0 xs
      | JStr s \<Rightarrow> Inr (map (\<lambda>c. [c]) s)
      | JObj items \<Rightarrow> Inr (map fst items)
      | _ \<Rightarrow> Inl (PyExc TypeError ''can only join an iterable''))"

text \<open>\<^verbatim>\<open>abstract[:200]\<close>.\<close>

definition slice_200 :: "pyjson \<Rightarrow> py_exception + pyjson" where
  "slice_200 v =
     (case v of
        JStr s \<Rightarrow> Inr (JStr (take 200 s))
      | JArr xs \<Rightarrow> Inr (JArr (take 200 xs))
      | JObj items \<Rightarrow> Inl (PyExc TypeError (''unhashable type: '' @ apostrophe @ ''slice'' @ apostrophe))
      | _ \<Rightarrow> Inl (PyExc TypeError (apostrophe @ type_name v @ apostrophe
                    @ '' object is not subscriptable'')))"

text \<open>A value inside an f-string.\<close>

definition format_value :: "env \<Rightarrow> pyjson \<Rightarrow> string" where
  "format_value env v = (case v of JStr s \<Rightarrow> s | _ \<Rightarrow> str_other env v)"

definition format_paper :: "env \<Rightarrow> pyjson \<Rightarrow> string \<Rightarrow> py_exception + string" where
  "format_paper env data ident =
     (case subscript env data ''result'' of
        Inl e \<Rightarrow> Inl e
      | Inr result \<Rightarrow>
     (case subscript env result ident of
        Inl e \<Rightarrow> Inl e
      | Inr paper \<Rightarrow>
     (case dict_get paper ''title'' (JStr ''No title available'') of
        Inl e \<Rightarrow> Inl e
      | Inr title \<Rightarrow>
     (case dict_get paper ''abstract'' (JStr ''No abstract available'') of
        Inl e \<Rightarrow> Inl e
      | Inr abstract \<Rightarrow>
     (case slice_200 abstract of
        Inl e \<Rightarrow> Inl e
      | Inr a \<Rightarrow>
          Inr (''Title: '' @ format_value env title @ newline
               @ ''PubMed ID: '' @ ident @ newline
               @ ''Abstract: '' @ format_value env a @ ''...'' @ newline))))))"

definition esearch_url :: "string \<Rightarrow> string" where
  "esearch_url query =
     ''https://eutils.ncbi.nlm.nih.gov/entrez/eutils/esearch.fcgi?db=pubmed&term='' @ query
     @ ''&retmax=3&format=json''"

definition esummary_url :: "string \<Rightarrow> string" where
  "esummary_url ids_string =
     ''https://eutils.ncbi.nlm.nih.gov/entrez/eutils/esummary.fcgi?db=pubmed&id='' @ ids_string
     @ ''&format=json''"

text \<open>The part of the \<^verbatim>\<open>try\<close> block after \<^verbatim>\<open>if not ids\<close>.\<close>

definition pubmed_summaries :: "env \<Rightarrow> pyjson \<Rightarrow> string io" where
  "pubmed_summaries env ids =
     bind_io (lift_io (join_items ids)) (\<lambda>id_list.
     bind_io (external (RequestsGet (esummary_url (join '','' id_list)))
                (\<lambda>h. requests_get env h (esummary_url (join '','' id_list)))) (\<lambda>response.
     bind_io (lift_io (check_status response)) (\<lambda>_.
     bind_io (lift_io (resp_json response)) (\<lambda>data.
     bind_io (lift_io (map_result (format_paper env data) id_list)) (\<lambda>results.
     return_io (join newline results))))))"

definition pubmed_body :: "env \<Rightarrow> string \<Rightarrow> string io" where
  "pubmed_body env query =
     bind_io (external (RequestsGet (esearch_url query)) (\<lambda>h. requests_get env h (esearch_url query)))
       (\<lambda>response.
     bind_io (lift_io (check_status response)) (\<lambda>_.
     bind_io (lift_io (resp_json response)) (\<lambda>data.
     bind_io (lift_io (dict_get data ''esearchresult'' (JObj []))) (\<lambda>esearchresult.
     bind_io (lift_io (dict_get esearchresult ''idlist'' (JArr []))) (\<lambda>ids.
     if \<not> truthy ids then return_io ''No results found on PubMed.''
     else pubmed_summaries env ids)))))"

definition search_pubmed :: "env \<Rightarrow> string \<Rightarrow> string io" where
  "search_pubmed env query =
     (if query = [] then return_io ''No query provided.''
      else
        try_io (pubmed_body env query)
          (\<lambda>e. return_io (''Error searching PubMed: '' @ exc_str e)))"

section \<open>The registry of tools and the prompt\<close>

record tool =
  name :: string
  func :: "env \<Rightarrow> string \<Rightarrow> string io"
  description :: string

definition tools :: "tool list" where
  "tools =
     [\<lparr>name = ''Wikipedia'',
        func = safe_wikipedia_search,
        description = ''Get detailed explanations and summaries from Wikipedia. who, what, when, where, why, how, story.''\<rparr>,
      \<lparr>name = ''DuckDuckGo'',
        func = safe_duckduckgo_search,
        description = ''Search the web for current information. Input: search query. who, what, when, where, why, how.''\<rparr>,
      \<lparr>name = ''BasicMath'',
        func = safe_math_eval,
        description = ''Performs basic mathematical calculations. Input: mathematical expression using +, -, *, /, ().''\<rparr>,
      \<lparr>name = ''ArXiv'',
        func = search_arxiv,
        description = ''Searches arXiv for scientific papers. research paper topic or keywords.''\<rparr>,
      \<lparr>name = ''PubMed'',
        func = search_pubmed,
        description = ''Searches PubMed for medical research. research paper on medical topic or keywords.''\<rparr>]"

definition tool_descriptions :: string where
  "tool_descriptions = join newline (map (\<lambda>tool. name tool @ '': '' @ description tool) tools)"

text \<open>
  The f-string \<^verbatim>\<open>CUSTOM_PROMPT\<close>, line by line; \<^verbatim>\<open>{{input}}\<close> in the source is the text
  \<^verbatim>\<open>{input}\<close> of the string.
\<close>

definition CUSTOM_PROMPT :: string where
  "CUSTOM_PROMPT =
     join newline
       [''You are a helpful research assistant that finds information using the available tools. Follow these guidelines strictly:'',
        '''',
        ''Available tools:'',
        '''',
        tool_descriptions,
        '''',
        ''Instructions:'',
        ''. Details from Internal Knowledge: Related information you already know'',
        ''. Add line breaks between sections'',
        ''. Use the exact tool name from the list above'',
        ''. Keep queries simple and clear'',
        ''. Use tools according to the type of information needed'',
        ''. In case of research paper only use ArXiv and Pubmed'',
        ''. Summarize information from multiple sources when relevant'',
        ''. Stop as soon as you have a clear answer with reference links'',
        '''',
        ''Use this exact format:'',
        '''',
        ''Question: the input question you must answer'',
        ''Thought: analyze the question and decide which tool to use'',
        ''Action: use EXACTLY one of these tools: Wikipedia, DuckDuckGo, BasicMath, ArXiv, or PubMed'',
        ''Action Input: just the plain search query or math expression'',
        ''Observation: the result of the action'',
        ''... (this Thought/Action/Action Input/Observation can repeat up to 3 times if needed)'',
        ''Thought: I now know the final answer'',
        ''Final Answer: provide a complete answer based on the information gathered with link (Details from Web Search: '',
        ''- First result title and brief description'',
        ''- Second result title and brief description'',
        '''',
        ''References:'',
        ''[1] link1'',
        ''[2] link2'',
        ''[etc])'',
        '''',
        ''Begin!'',
        '''',
        ''Question: {input}'',
        ''Thought:'']"

text \<open>The lines of a string, as \<^verbatim>\<open>s.split("\n")\<close> gives them.\<close>

fun split_lines :: "string \<Rightarrow> string list" where
  "split_lines [] = [[]]"
| "split_lines (c # cs) =
     (if c = CHR 0x0A then [] # split_lines cs
      else (case split_lines cs of [] \<Rightarrow> [[c]] | l # ls \<Rightarrow> (c # l) # ls))"

text \<open>
  The keyword arguments the module gives \<^verbatim>\<open>initialize_agent\<close> in \<^verbatim>\<open>agent_kwargs\<close>:
  the prefix, \<^verbatim>\<open>"max_iterations": 3\<close> and \<^verbatim>\<open>"early_stopping_method": "generate"\<close>.
\<close>

record agent_kwargs =
  prefix_kw :: string
  max_iterations :: nat
  early_stopping_method :: string

definition agent_kwargs :: agent_kwargs where
  "agent_kwargs =
     \<lparr>prefix_kw = CUSTOM_PROMPT, max_iterations = 3, early_stopping_method = ''generate''\<rparr>"

section \<open>The endpoint \<^verbatim>\<open>/search\<close>\<close>

text \<open>
  A request is given by what the property \<^verbatim>\<open>request.json\<close> yields: the parsed body, or the
  exception Flask raises when the body is not JSON. A response is the JSON value given to
  \<^verbatim>\<open>jsonify\<close> and the status code (200 when the source gives none).
\<close>

record request =
  req_json :: "py_exception + pyjson"

record response =
  body :: pyjson
  status :: nat

definition jsonify :: "(string \<times> pyjson) list \<Rightarrow> nat \<Rightarrow> response" where
  "jsonify items code = \<lparr>body = JObj items, status = code\<rparr>"

text \<open>The \<^verbatim>\<open>try\<close> block of \<^verbatim>\<open>search\<close>; \<^verbatim>\<open>d.get('query')\<close> has the default \<^verbatim>\<open>None\<close>.\<close>

definition search_body :: "env \<Rightarrow> request \<Rightarrow> response io" where
  "search_body env request =
     bind_io (lift_io (req_json request)) (\<lambda>json.
     bind_io (lift_io (dict_get json ''query'' JNull)) (\<lambda>user_input.
     if \<not> truthy user_input then return_io (jsonify [(''error'', JStr ''No query provided'')] 400)
     else
       bind_io (external (AgentRun user_input) (\<lambda>h. agent_run env h user_input)) (\<lambda>result.
       return_io (jsonify [(''result'', JStr result)] 200))))"

definition search :: "env \<Rightarrow> request \<Rightarrow> response io" where
  "search env request =
     try_io (search_body env request)
       (\<lambda>e. return_io (jsonify [(''error'', JStr (exc_str e))] 500))"

section \<open>The agent loop\<close>

text \<open>
  Modelled from the spec: the loop behind \<^verbatim>\<open>agent.run\<close>. The module only configures it
  (\<^verbatim>\<open>initialize_agent\<close>) and calls it; the loop itself is the framework's and is not part
  of the sources. What follows is the state machine of section 4.3 of the
  specification, with the data of its section 3.
\<close>

text \<open>Modelled from the spec: the three results of the OutputParser (section 4.1).\<close>

datatype parsed = FinalAnswer string | Action string string | ParseError string

text \<open>Modelled from the spec: a turn of the Transcript (section 3).\<close>

datatype turn = ActionTurn string string | ObservationTurn string | FinalAnswerTurn string

text \<open>Modelled from the spec: the status of a run (section 3).\<close>

datatype run_status = Pending | Succeeded | Stopped | Failed

text \<open>Modelled from the spec: the RunState (section 3).\<close>

record run_state =
  transcript :: "turn list"
  iterations_used :: nat
  run_status :: run_status

text \<open>
  Modelled from the spec: the capabilities the loop consumes (sections 2 and 6). The
  Model gets the prompts sent before and the prompt, and may fail; the ToolRegistry
  never raises; the parser is pure; \<open>build_prompt\<close> and \<open>final_prompt\<close> render the
  Transcript and the question (the second asks for a Final Answer at once);
  \<open>malformed\<close> is the text of the synthetic Observation after a ParseError.
\<close>

record capabilities =
  complete :: "string list \<Rightarrow> string \<Rightarrow> py_exception + string"
  invoke :: "string \<Rightarrow> string \<Rightarrow> string"
  parse :: "string \<Rightarrow> parsed"
  build_prompt :: "turn list \<Rightarrow> string \<Rightarrow> string"
  final_prompt :: "turn list \<Rightarrow> string \<Rightarrow> string"
  malformed :: string

text \<open>
  Modelled from the spec: what a run leaves: its last state, the text it returns or
  the error it surfaces, and the prompts it sent to the Model, in order.
\<close>

record run_result =
  final_state :: run_state
  returned :: "py_exception + string"
  model_calls :: "string list"

text \<open>
  Modelled from the spec: step 4 of section 4.3, the forced final-answer call: one
  more Model call; a FinalAnswer succeeds, any other completion is returned raw with
  the status Stopped, and a failure of the Model is the status Failed (step 5).
\<close>

definition forced_final :: "capabilities \<Rightarrow> string \<Rightarrow> run_state \<Rightarrow> string list \<Rightarrow> run_result" where
  "forced_final cap question st calls =
     (let prompt = final_prompt cap (transcript st) question in
      case complete cap calls prompt of
        Inl e \<Rightarrow>
          \<lparr>final_state = st\<lparr>run_status := Failed\<rparr>, returned = Inl e, model_calls = calls @ [prompt]\<rparr>
      | Inr completion \<Rightarrow>
          (case parse cap completion of
             FinalAnswer t \<Rightarrow>
               \<lparr>final_state = st\<lparr>transcript := transcript st @ [FinalAnswerTurn t],
                                   run_status := Succeeded\<rparr>,
                returned = Inr t, model_calls = calls @ [prompt]\<rparr>
           | _ \<Rightarrow>
               \<lparr>final_state = st\<lparr>run_status := Stopped\<rparr>,
                returned = Inr completion, model_calls = calls @ [prompt]\<rparr>))"

text \<open>
  Modelled from the spec: steps 1 to 5 of section 4.3, repeated while the iteration
  counter is below \<open>max_iterations\<close>.
\<close>

function agent_loop ::
  "capabilities \<Rightarrow> nat \<Rightarrow> string \<Rightarrow> run_state \<Rightarrow> string list \<Rightarrow> run_result" where
  "agent_loop cap maxit question st calls =
     (if maxit \<le> iterations_used st then forced_final cap question st calls
      else
        (let prompt = build_prompt cap (transcript st) question in
         case complete cap calls prompt of
           Inl e \<Rightarrow>
             \<lparr>final_state = st\<lparr>run_status := Failed\<rparr>, returned = Inl e,
              model_calls = calls @ [prompt]\<rparr>
         | Inr completion \<Rightarrow>
             (case parse cap completion of
                FinalAnswer t \<Rightarrow>
                  \<lparr>final_state = st\<lparr>transcript := transcript st @ [FinalAnswerTurn t],
                                      run_status := Succeeded\<rparr>,
                   returned = Inr t, model_calls = calls @ [prompt]\<rparr>
              | Action tool_name tool_input \<Rightarrow>
                  agent_loop cap maxit question
                    (st\<lparr>transcript := transcript st
                          @ [ActionTurn tool_name tool_input,
                             ObservationTurn (invoke cap tool_name tool_input)],
                        iterations_used := Suc (iterations_used st)\<rparr>)
                    (calls @ [prompt])
              | ParseError raw \<Rightarrow>
                  agent_loop cap maxit question
                    (st\<lparr>transcript := transcript st @ [ObservationTurn (malformed cap)],
                        iterations_used := Suc (iterations_used st)\<rparr>)
                    (calls @ [prompt]))))"
  by pat_completeness auto
termination
  by (relation "measure (\<lambda>(cap, maxit, question, st, calls). maxit - iterations_used st)") auto

text \<open>Modelled from the spec: the initial state of section 4.3, and \<open>run\<close> (section 6).\<close>

definition initial_state :: run_state where
  "initial_state = \<lparr>transcript = [], iterations_used = 0, run_status = Pending\<rparr>"

definition run :: "capabilities \<Rightarrow> nat \<Rightarrow> string \<Rightarrow> run_result" where
  "run cap maxit question = agent_loop cap maxit question initial_state []"

section \<open>Two environments to evaluate the model in\<close>

text \<open>
  In \<open>offline_env\<close> every collaborator fails: the network is unreachable, the XML
  parser rejects its input, and \<^verbatim>\<open>eval\<close> raises outside integer arithmetic.
\<close>

definition unreachable :: py_exception where
  "unreachable = PyExc OtherException ''connection refused''"

definition offline_env :: env where
  "offline_env =
     \<lparr>wikipedia_search = (\<lambda>h q. Inl unreachable),
      wikipedia_page = (\<lambda>h t. Inl unreachable),
      page_summary = (\<lambda>h p. Inl unreachable),
      ddgs_text = (\<lambda>h q. Inl unreachable),
      eval_other = (\<lambda>h s. Inl (PyExc OtherException ''division by zero'')),
      requests_get = (\<lambda>h u. Inl unreachable),
      fromstring = (\<lambda>s. Inl (PyExc OtherException ''syntax error'')),
      repr_str = (\<lambda>s. apostrophe @ s @ apostrophe),
      str_other = (\<lambda>v. ''None''),
      agent_run = (\<lambda>h q. Inl unreachable)\<rparr>"

text \<open>
  In \<open>sample_env\<close> the searches answer: Wikipedia finds a page for every query but
  \<^verbatim>\<open>Mercury\<close>, which is ambiguous; a summary has 600 characters; the HTTP server answers
  with a page that is neither XML nor JSON; the agent answers \<^verbatim>\<open>42\<close>.
\<close>

definition sample_env :: env where
  "sample_env =
     \<lparr>wikipedia_search = (\<lambda>h q. Inr [q]),
      wikipedia_page = (\<lambda>h t.
        if t = ''Mercury''
        then Inl (PyExc (DisambiguationError [''Mercury (planet)'', ''Mercury (element)''])
                   ''Mercury may refer to: Mercury (planet), Mercury (element)'')
        else Inr (WikipediaPage t)),
      page_summary = (\<lambda>h p. Inr (replicate 600 (CHR ''a''))),
      ddgs_text = (\<lambda>h q. Inr [[(''title'', ''A title''), (''body'', ''A body'')]]),
      eval_other = (\<lambda>h s. Inr (PyOther ''0.5'')),
      requests_get = (\<lambda>h u. Inr \<lparr>raise_for_status = None, resp_text = ''<html>'',
                                   resp_json = Inl (PyExc OtherException ''Expecting value'')\<rparr>),
      fromstring = (\<lambda>s. Inl (PyExc OtherException ''syntax error: line 1, column 0'')),
      repr_str = (\<lambda>s. apostrophe @ s @ apostrophe),
      str_other = (\<lambda>v. ''None''),
      agent_run = (\<lambda>h q. Inr ''42'')\<rparr>"

section \<open>The math tool\<close>

lemma int_expression_2_plus_2: "int_expression ''2+2'' = Some 4"
  by code_simp

lemma str_int_4: "str_int 4 = ''4''"
  by (simp add: str_int_def)

text \<open>
  C4. The registry has one tool named \<^verbatim>\<open>BasicMath\<close>, and invoking it with \<^verbatim>\<open>2+2\<close> returns
  exactly the string \<^verbatim>\<open>4\<close>, in every environment and after every history (the one call
  it makes is \<^verbatim>\<open>eval("2+2")\<close>).
\<close>

theorem basic_math_2_plus_2:
  "map (\<lambda>t. func t env ''2+2'' h) (filter (\<lambda>t. name t = ''BasicMath'') tools)
     = [(Inr ''4'', h @ [Eval ''2+2''])]"
  by (simp add: tools_def safe_math_eval_def allowed_chars_def try_io_def bind_io_def
      return_io_def builtin_eval_def external_def int_expression_2_plus_2 str_int_4)

lemma safe_math_eval_invalid:
  "\<not> list_all (\<lambda>c. c \<in> set allowed_chars) expression \<Longrightarrow>
   safe_math_eval env expression h = (Inr invalid_expression, h)"
  by (simp add: safe_math_eval_def try_io_def return_io_def)

lemma safe_math_eval_history:
  "snd (safe_math_eval env expression h) =
     (if list_all (\<lambda>c. c \<in> set allowed_chars) expression then h @ [Eval expression] else h)"
  by (simp add: safe_math_eval_def try_io_def return_io_def bind_io_def builtin_eval_def
      external_def split: sum.split option.split)

lemma safe_math_eval_failure:
  "list_all (\<lambda>c. c \<in> set allowed_chars) expression \<Longrightarrow>
   fst (builtin_eval env expression h) = Inl e \<Longrightarrow>
   fst (safe_math_eval env expression h)
     = Inr (''Error evaluating mathematical expression: '' @ exc_str e)"
  by (simp add: safe_math_eval_def try_io_def return_io_def bind_io_def builtin_eval_def
      external_def split: sum.split option.split)

text \<open>
  C3. If the input has a character outside \<^verbatim>\<open>0123456789+-*/(). \<close> then \<^verbatim>\<open>safe_math_eval\<close>
  returns the fixed message and makes no call (the history is as before, so \<^verbatim>\<open>eval\<close> is
  not reached); an \<^verbatim>\<open>eval\<close> the tool makes is of its input, and that input is made of
  whitelisted characters only; and when the input is whitelisted and \<^verbatim>\<open>eval\<close> raises
  \<open>e\<close>, the tool returns \<^verbatim>\<open>Error evaluating mathematical expression: \<close> followed by
  \<^verbatim>\<open>str(e)\<close>.
\<close>

theorem safe_math_eval_whitelist:
  "(\<not> list_all (\<lambda>c. c \<in> set ''0123456789+-*/(). '') expression \<longrightarrow>
      safe_math_eval env expression h
        = (Inr ''Invalid mathematical expression. Only basic operations are allowed.'', h))
   \<and> (Eval x \<in> set (snd (safe_math_eval env expression [])) \<longrightarrow>
      x = expression \<and> list_all (\<lambda>c. c \<in> set ''0123456789+-*/(). '') expression)
   \<and> (list_all (\<lambda>c. c \<in> set ''0123456789+-*/(). '') expression
        \<and> fst (builtin_eval env expression h) = Inl e \<longrightarrow>
      fst (safe_math_eval env expression h)
        = Inr (''Error evaluating mathematical expression: '' @ exc_str e)
      \<and> prefix ''Error evaluating mathematical expression:''
          (''Error evaluating mathematical expression: '' @ exc_str e))"
proof -
  have a: "allowed_chars = ''0123456789+-*/(). ''"
    by (simp add: allowed_chars_def)
  have 1: "\<not> list_all (\<lambda>c. c \<in> set ''0123456789+-*/(). '') expression \<longrightarrow>
      safe_math_eval env expression h
        = (Inr ''Invalid mathematical expression. Only basic operations are allowed.'', h)"
    using safe_math_eval_invalid[of expression env h]
    unfolding a invalid_expression_def by blast
  have 2: "Eval x \<in> set (snd (safe_math_eval env expression [])) \<longrightarrow>
      x = expression \<and> list_all (\<lambda>c. c \<in> set ''0123456789+-*/(). '') expression"
    using safe_math_eval_history[of env expression "[]"]
    unfolding a by (simp split: if_splits)
  have 3: "list_all (\<lambda>c. c \<in> set ''0123456789+-*/(). '') expression
        \<and> fst (builtin_eval env expression h) = Inl e \<longrightarrow>
      fst (safe_math_eval env expression h)
        = Inr (''Error evaluating mathematical expression: '' @ exc_str e)"
    using safe_math_eval_failure[of expression env h e]
    unfolding a by blast
  have 4: "prefix ''Error evaluating mathematical expression:''
          (''Error evaluating mathematical expression: '' @ exc_str e)"
    by simp
  from 1 2 3 4 show ?thesis by blast
qed

lemma not_whitelisted_example: "\<not> list_all (\<lambda>c. c \<in> set ''0123456789+-*/(). '') ''2+a''"
  by simp

lemma whitelisted_example: "list_all (\<lambda>c. c \<in> set ''0123456789+-*/(). '') ''1/0''"
  by simp

lemma int_expression_1_div_0: "int_expression ''1/0'' = None"
  by code_simp

lemma eval_raises_example:
  "fst (builtin_eval offline_env ''1/0'' []) = Inl (PyExc OtherException ''division by zero'')"
  by (simp add: builtin_eval_def external_def int_expression_1_div_0 offline_env_def)

lemma eval_reached_example: "Eval ''1/0'' \<in> set (snd (safe_math_eval offline_env ''1/0'' []))"
  by (simp add: safe_math_eval_history allowed_chars_def)

theorem safe_math_eval_whitelist_witness:
  "\<not> list_all (\<lambda>c. c \<in> set ''0123456789+-*/(). '') ''2+a''
   \<and> safe_math_eval offline_env ''2+a'' []
        = (Inr ''Invalid mathematical expression. Only basic operations are allowed.'', [])
   \<and> Eval ''1/0'' \<in> set (snd (safe_math_eval offline_env ''1/0'' []))
   \<and> list_all (\<lambda>c. c \<in> set ''0123456789+-*/(). '') ''1/0''
   \<and> fst (builtin_eval offline_env ''1/0'' []) = Inl (PyExc OtherException ''division by zero'')
   \<and> fst (safe_math_eval offline_env ''1/0'' [])
        = Inr ''Error evaluating mathematical expression: division by zero''"
  using
    safe_math_eval_whitelist[of "''2+a''" offline_env "[]" "''1/0''"
      "PyExc OtherException ''division by zero''"]
    safe_math_eval_whitelist[of "''1/0''" offline_env "[]" "''1/0''"
      "PyExc OtherException ''division by zero''"]
    not_whitelisted_example whitelisted_example eval_raises_example eval_reached_example
  by simp

section \<open>Empty queries\<close>

text \<open>
  C9. On the empty string, \<^verbatim>\<open>search_arxiv\<close> and \<^verbatim>\<open>search_pubmed\<close> return exactly
  \<^verbatim>\<open>No query provided.\<close> and make no call: the history is as before, so no request is
  sent.
\<close>

theorem empty_query:
  "search_arxiv env '''' h = (Inr ''No query provided.'', h)
   \<and> search_pubmed env '''' h = (Inr ''No query provided.'', h)"
  by (simp add: search_arxiv_def search_pubmed_def return_io_def)

section \<open>No exception leaves a tool\<close>














section \<open>Failures of the arXiv search\<close>

lemma search_arxiv_handles:
  "query \<noteq> [] \<Longrightarrow> fst (arxiv_body env query h) = Inl e \<Longrightarrow>
   fst (search_arxiv env query h) = Inr (''Error searching ArXiv: '' @ exc_str e)"
  by (cases "arxiv_body env query h") (simp add: search_arxiv_def try_io_def return_io_def)

lemma arxiv_body_fetch:
  "requests_get env h (arxiv_url query) = Inl e \<Longrightarrow> fst (arxiv_body env query h) = Inl e"
  by (simp add: arxiv_body_def bind_io_def external_def)

lemma arxiv_body_status:
  "requests_get env h (arxiv_url query) = Inr response \<Longrightarrow> raise_for_status response = Some e \<Longrightarrow>
   fst (arxiv_body env query h) = Inl e"
  by (simp add: arxiv_body_def bind_io_def external_def lift_io_def check_status_def)

lemma arxiv_body_parse:
  "requests_get env h (arxiv_url query) = Inr response \<Longrightarrow> raise_for_status response = None \<Longrightarrow>
   fromstring env (resp_text response) = Inl e \<Longrightarrow>
   fst (arxiv_body env query h) = Inl e"
  by (simp add: arxiv_body_def bind_io_def external_def lift_io_def check_status_def)

text \<open>
  C5. For a query that is not empty (so that a request is made): when \<^verbatim>\<open>requests.get\<close>
  raises \<open>e\<close>, or \<^verbatim>\<open>raise_for_status\<close> raises \<open>e\<close>, or parsing the response raises \<open>e\<close>, or
  the \<^verbatim>\<open>try\<close> block raises \<open>e\<close> anywhere, \<^verbatim>\<open>search_arxiv\<close> returns the string
  \<^verbatim>\<open>Error searching ArXiv: \<close> followed by \<^verbatim>\<open>str(e)\<close>, which starts with
  \<^verbatim>\<open>Error searching ArXiv:\<close>.
\<close>

theorem search_arxiv_failure:
  assumes "query \<noteq> []"
    and "requests_get env h (arxiv_url query) = Inl e
         \<or> (\<exists>response. requests_get env h (arxiv_url query) = Inr response
               \<and> raise_for_status response = Some e)
         \<or> (\<exists>response. requests_get env h (arxiv_url query) = Inr response
               \<and> raise_for_status response = None
               \<and> fromstring env (resp_text response) = Inl e)
         \<or> fst (arxiv_body env query h) = Inl e"
  shows "fst (search_arxiv env query h) = Inr (''Error searching ArXiv: '' @ exc_str e)
         \<and> prefix ''Error searching ArXiv:'' (''Error searching ArXiv: '' @ exc_str e)"
proof -
  from assms(2) have "fst (arxiv_body env query h) = Inl e"
    using arxiv_body_fetch arxiv_body_status arxiv_body_parse by blast
  with assms(1) show ?thesis
    by (simp add: search_arxiv_handles)
qed

lemma offline_fetch: "requests_get offline_env [] (arxiv_url ''quantum'') = Inl unreachable"
  by (simp add: offline_env_def)

lemma sample_fetch:
  "requests_get sample_env [] (arxiv_url ''quantum'')
     = Inr \<lparr>raise_for_status = None, resp_text = ''<html>'',
            resp_json = Inl (PyExc OtherException ''Expecting value'')\<rparr>"
  by (simp add: sample_env_def)

lemma sample_parse:
  "fromstring sample_env ''<html>'' = Inl (PyExc OtherException ''syntax error: line 1, column 0'')"
  by (simp add: sample_env_def)

theorem search_arxiv_failure_witness:
  "''quantum'' \<noteq> []
   \<and> requests_get offline_env [] (arxiv_url ''quantum'') = Inl unreachable
   \<and> fst (search_arxiv offline_env ''quantum'' []) = Inr ''Error searching ArXiv: connection refused''
   \<and> fromstring sample_env ''<html>'' = Inl (PyExc OtherException ''syntax error: line 1, column 0'')
   \<and> fst (search_arxiv sample_env ''quantum'' [])
       = Inr ''Error searching ArXiv: syntax error: line 1, column 0''"
  using search_arxiv_failure[of "''quantum''" offline_env "[]" unreachable]
    search_arxiv_failure[of "''quantum''" sample_env "[]"
      "PyExc OtherException ''syntax error: line 1, column 0''"]
    offline_fetch sample_fetch sample_parse
  by (simp add: unreachable_def)

section \<open>The endpoint\<close>

lemma search_falsy_query:
  assumes "req_json request = Inr (JObj items)"
    and "map_of items ''query'' = None \<or> (\<exists>v. map_of items ''query'' = Some v \<and> \<not> truthy v)"
  shows "search env request h
           = (Inr \<lparr>body = JObj [(''error'', JStr ''No query provided'')], status = 400\<rparr>, h)"
  using assms
  by (auto simp add: search_def search_body_def try_io_def bind_io_def lift_io_def return_io_def
      dict_get_def jsonify_def)

lemma search_not_object:
  assumes "req_json request = Inr json"
    and "\<forall>items. json \<noteq> JObj items"
  shows "search env request h
           = (Inr \<lparr>body = JObj [(''error'', JStr (apostrophe @ type_name json @ apostrophe
                       @ '' object has no attribute '' @ apostrophe @ ''get'' @ apostrophe))],
                  status = 500\<rparr>, h)"
  using assms
  by (cases json)
    (simp_all add: search_def search_body_def try_io_def bind_io_def lift_io_def return_io_def
      dict_get_def jsonify_def)

text \<open>
  C6, as stated, fails: the JSON body \<^verbatim>\<open>[1]\<close> has no field \<^verbatim>\<open>query\<close>, yet \<^verbatim>\<open>.get\<close> raises on a
  list, and the answer is the status 500 with the text of the \<^verbatim>\<open>AttributeError\<close>, not the
  status 400 with \<^verbatim>\<open>No query provided\<close>.
\<close>

theorem search_no_query_counterexample:
  "req_json \<lparr>req_json = Inr (JArr [JInt 1])\<rparr> = Inr (JArr [JInt 1])
   \<and> fst (search sample_env \<lparr>req_json = Inr (JArr [JInt 1])\<rparr> [])
       = Inr \<lparr>body = JObj [(''error'', JStr (apostrophe @ ''list'' @ apostrophe
                   @ '' object has no attribute '' @ apostrophe @ ''get'' @ apostrophe))],
              status = 500\<rparr>
   \<and> fst (search sample_env \<lparr>req_json = Inr (JArr [JInt 1])\<rparr> [])
       \<noteq> Inr \<lparr>body = JObj [(''error'', JStr ''No query provided'')], status = 400\<rparr>"
  by (simp add: search_def search_body_def try_io_def bind_io_def lift_io_def return_io_def
      dict_get_def jsonify_def)

text \<open>
  C6, amended. For a request whose JSON body is an object that has no field \<^verbatim>\<open>query\<close>, or
  has there a value that counts as false (the empty string, \<^verbatim>\<open>null\<close>, \<^verbatim>\<open>0\<close>, \<^verbatim>\<open>false\<close>, an
  empty list or object), \<^verbatim>\<open>search\<close> answers with the body
  \<^verbatim>\<open>{"error": "No query provided"}\<close> and the status 400. For that request, and for a
  request whose JSON body is not an object, \<^verbatim>\<open>search\<close> makes no call: the history is as
  before, and no \<^verbatim>\<open>agent.run\<close> is in it.
\<close>

theorem search_no_query:
  "(req_json request = Inr (JObj items)
      \<and> (map_of items ''query'' = None
           \<or> (\<exists>v. map_of items ''query'' = Some v \<and> \<not> truthy v)) \<longrightarrow>
        search env request h
          = (Inr \<lparr>body = JObj [(''error'', JStr ''No query provided'')], status = 400\<rparr>, h)
        \<and> AgentRun q \<notin> set (snd (search env request [])))
   \<and> (req_json request = Inr json \<and> (\<forall>items'. json \<noteq> JObj items') \<longrightarrow>
        snd (search env request h) = h
        \<and> AgentRun q \<notin> set (snd (search env request [])))"
proof -
  have 1: "req_json request = Inr (JObj items)
      \<and> (map_of items ''query'' = None
           \<or> (\<exists>v. map_of items ''query'' = Some v \<and> \<not> truthy v)) \<longrightarrow>
        search env request h
          = (Inr \<lparr>body = JObj [(''error'', JStr ''No query provided'')], status = 400\<rparr>, h)
        \<and> AgentRun q \<notin> set (snd (search env request []))"
    using search_falsy_query[of request items env h] search_falsy_query[of request items env "[]"]
    by simp
  have 2: "req_json request = Inr json \<and> (\<forall>items'. json \<noteq> JObj items') \<longrightarrow>
        snd (search env request h) = h
        \<and> AgentRun q \<notin> set (snd (search env request []))"
    using search_not_object[of request json env h] search_not_object[of request json env "[]"]
    by simp
  from 1 2 show ?thesis by blast
qed

lemma not_object_example: "\<forall>items'. JArr [JInt 1] \<noteq> JObj items'"
  by simp

theorem search_no_query_witness:
  "req_json \<lparr>req_json = Inr (JObj [(''user'', JStr ''ann'')])\<rparr> = Inr (JObj [(''user'', JStr ''ann'')])
   \<and> map_of [(''user'', JStr ''ann'')] ''query'' = None
   \<and> search sample_env \<lparr>req_json = Inr (JObj [(''user'', JStr ''ann'')])\<rparr> []
       = (Inr \<lparr>body = JObj [(''error'', JStr ''No query provided'')], status = 400\<rparr>, [])
   \<and> map_of [(''query'', JStr '''')] ''query'' = Some (JStr '''')
   \<and> \<not> truthy (JStr '''')
   \<and> search sample_env \<lparr>req_json = Inr (JObj [(''query'', JStr '''')])\<rparr> []
       = (Inr \<lparr>body = JObj [(''error'', JStr ''No query provided'')], status = 400\<rparr>, [])
   \<and> map_of [(''query'', JNull)] ''query'' = Some JNull
   \<and> \<not> truthy JNull
   \<and> search sample_env \<lparr>req_json = Inr (JObj [(''query'', JNull)])\<rparr> []
       = (Inr \<lparr>body = JObj [(''error'', JStr ''No query provided'')], status = 400\<rparr>, [])
   \<and> req_json \<lparr>req_json = Inr (JArr [JInt 1])\<rparr> = Inr (JArr [JInt 1])
   \<and> snd (search sample_env \<lparr>req_json = Inr (JArr [JInt 1])\<rparr> []) = []"
  using search_no_query[of "\<lparr>req_json = Inr (JObj [(''user'', JStr ''ann'')])\<rparr>"
      "[(''user'', JStr ''ann'')]" sample_env "[]" "JStr ''x''" "JObj [(''user'', JStr ''ann'')]"]
    search_no_query[of "\<lparr>req_json = Inr (JObj [(''query'', JStr '''')])\<rparr>"
      "[(''query'', JStr '''')]" sample_env "[]" "JStr ''x''" "JObj [(''query'', JStr '''')]"]
    search_no_query[of "\<lparr>req_json = Inr (JObj [(''query'', JNull)])\<rparr>"
      "[(''query'', JNull)]" sample_env "[]" "JStr ''x''" "JObj [(''query'', JNull)]"]
    search_no_query[of "\<lparr>req_json = Inr (JArr [JInt 1])\<rparr>"
      "[]" sample_env "[]" "JStr ''x''" "JArr [JInt 1]"]
    not_object_example
  by simp

lemma search_returns: "\<exists>r. fst (search env request h) = Inr r"
  by (cases "search_body env request h")
    (auto simp add: search_def try_io_def return_io_def split: sum.split)

lemma search_handles:
  "fst (search_body env request h) = Inl e \<Longrightarrow>
   fst (search env request h) = Inr \<lparr>body = JObj [(''error'', JStr (exc_str e))], status = 500\<rparr>"
  by (cases "search_body env request h")
    (simp add: search_def try_io_def return_io_def jsonify_def)

lemma search_body_no_json:
  "req_json request = Inl e \<Longrightarrow> fst (search_body env request h) = Inl e"
  by (simp add: search_body_def bind_io_def lift_io_def)

lemma search_body_run_fails:
  "req_json request = Inr (JObj items) \<Longrightarrow> map_of items ''query'' = Some q \<Longrightarrow> truthy q \<Longrightarrow>
   agent_run env h q = Inl e \<Longrightarrow> fst (search_body env request h) = Inl e"
  by (simp add: search_body_def bind_io_def lift_io_def dict_get_def external_def)

text \<open>
  C7. \<^verbatim>\<open>search\<close> never raises. When its \<^verbatim>\<open>try\<close> block raises \<open>e\<close> (in particular when
  \<^verbatim>\<open>request.json\<close> raises \<open>e\<close>, or when the query is there and \<^verbatim>\<open>agent.run\<close> raises \<open>e\<close>, as
  it does when the model backend is unreachable), the response has the status 500 and
  the body \<^verbatim>\<open>{"error": str(e)}\<close>: the message of the exception and nothing else.
\<close>

theorem search_catches:
  "(\<exists>r. fst (search env request h) = Inr r)
   \<and> (fst (search_body env request h) = Inl e
        \<or> req_json request = Inl e
        \<or> (\<exists>items q. req_json request = Inr (JObj items) \<and> map_of items ''query'' = Some q
              \<and> truthy q \<and> agent_run env h q = Inl e)
      \<longrightarrow> fst (search env request h)
            = Inr \<lparr>body = JObj [(''error'', JStr (exc_str e))], status = 500\<rparr>)"
  using search_returns search_handles search_body_no_json search_body_run_fails
  by blast

theorem search_catches_witness:
  "req_json \<lparr>req_json = Inr (JObj [(''query'', JStr ''What is 2+2?'')])\<rparr>
     = Inr (JObj [(''query'', JStr ''What is 2+2?'')])
   \<and> map_of [(''query'', JStr ''What is 2+2?'')] ''query'' = Some (JStr ''What is 2+2?'')
   \<and> truthy (JStr ''What is 2+2?'')
   \<and> agent_run offline_env [] (JStr ''What is 2+2?'') = Inl unreachable
   \<and> fst (search offline_env \<lparr>req_json = Inr (JObj [(''query'', JStr ''What is 2+2?'')])\<rparr> [])
       = Inr \<lparr>body = JObj [(''error'', JStr ''connection refused'')], status = 500\<rparr>"
  using search_catches[of offline_env
      "\<lparr>req_json = Inr (JObj [(''query'', JStr ''What is 2+2?'')])\<rparr>" "[]" unreachable]
  by (simp add: offline_env_def unreachable_def)

section \<open>The length of a Wikipedia summary\<close>

lemma summary_of_page_ok:
  "wikipedia_page env h t = Inr page \<Longrightarrow>
   page_summary env (h @ [WikipediaPageCall t]) page = Inr summary \<Longrightarrow>
   fst (summary_of_page env t h) = Inr (take 500 summary)"
  by (simp add: summary_of_page_def bind_io_def external_def return_io_def)

lemma wikipedia_direct:
  assumes "wikipedia_search env h (clean_query query) = Inr (page_title # rest)"
    and "wikipedia_page env (h @ [WikipediaSearch (clean_query query)]) page_title = Inr page"
    and "page_summary env (h @ [WikipediaSearch (clean_query query), WikipediaPageCall page_title]) page
           = Inr summary"
  shows "fst (safe_wikipedia_search env query h) = Inr (take 500 summary)"
proof -
  have "fst (wikipedia_body env (clean_query query) h) = Inr (take 500 summary)"
    using assms
      summary_of_page_ok[of env "h @ [WikipediaSearch (clean_query query)]" page_title page summary]
    by (simp add: wikipedia_body_def bind_io_def external_def)
  then show ?thesis
    by (cases "wikipedia_body env (clean_query query) h")
      (simp add: safe_wikipedia_search_def try_io_def)
qed

lemma wikipedia_disambiguation:
  assumes "wikipedia_body env (clean_query query) h = (Inl e, h')"
    and "exc_class e = DisambiguationError (option # rest)"
    and "wikipedia_page env h' option = Inr page"
    and "page_summary env (h' @ [WikipediaPageCall option]) page = Inr summary"
  shows "fst (safe_wikipedia_search env query h) = Inr (take 500 summary)"
proof -
  have "fst (summary_of_page env option h') = Inr (take 500 summary)"
    using assms(3,4) by (rule summary_of_page_ok)
  then show ?thesis
    using assms(1,2)
    by (cases "summary_of_page env option h'")
      (simp add: safe_wikipedia_search_def try_io_def wikipedia_handler_def bind_io_def
        lift_io_def first_option_def)
qed

text \<open>
  C10. When the lookup succeeds directly (the search finds a title, the page of the
  first title loads and its summary is read), or through the first option of a
  disambiguation (the \<^verbatim>\<open>try\<close> block raises a \<^verbatim>\<open>DisambiguationError\<close>, the page of its first
  option loads and its summary is read), \<^verbatim>\<open>safe_wikipedia_search\<close> returns the first 500
  characters of that summary, a string of at most 500 characters.
\<close>

theorem wikipedia_summary_500:
  assumes "(\<exists>page_title rest.
              wikipedia_search env h (clean_query query) = Inr (page_title # rest)
              \<and> wikipedia_page env (h @ [WikipediaSearch (clean_query query)]) page_title = Inr page
              \<and> page_summary env
                   (h @ [WikipediaSearch (clean_query query), WikipediaPageCall page_title]) page
                 = Inr summary)
         \<or> (\<exists>e h' option rest.
              wikipedia_body env (clean_query query) h = (Inl e, h')
              \<and> exc_class e = DisambiguationError (option # rest)
              \<and> wikipedia_page env h' option = Inr page
              \<and> page_summary env (h' @ [WikipediaPageCall option]) page = Inr summary)"
  shows "fst (safe_wikipedia_search env query h) = Inr (take 500 summary)
         \<and> length (take 500 summary) \<le> 500"
  using assms wikipedia_direct wikipedia_disambiguation
  by (metis length_take min.cobounded2)

lemma clean_query_example: "clean_query ''Alan+Turing'' = ''Alan Turing''"
  by (simp add: clean_query_def strip_def replace_def)

lemma direct_example:
  "\<exists>page_title rest.
     wikipedia_search sample_env [] (clean_query ''Alan+Turing'') = Inr (page_title # rest)
     \<and> wikipedia_page sample_env ([] @ [WikipediaSearch (clean_query ''Alan+Turing'')]) page_title
         = Inr (WikipediaPage ''Alan Turing'')
     \<and> page_summary sample_env
          ([] @ [WikipediaSearch (clean_query ''Alan+Turing''), WikipediaPageCall page_title])
          (WikipediaPage ''Alan Turing'')
        = Inr (replicate 600 (CHR ''a''))"
  by (simp add: clean_query_example sample_env_def)

lemma ambiguous_body:
  "wikipedia_body sample_env ''Mercury'' []
     = (Inl (PyExc (DisambiguationError [''Mercury (planet)'', ''Mercury (element)''])
               ''Mercury may refer to: Mercury (planet), Mercury (element)''),
        [WikipediaSearch ''Mercury'', WikipediaPageCall ''Mercury''])"
  by (simp add: wikipedia_body_def summary_of_page_def bind_io_def external_def sample_env_def)

lemma disambiguation_example:
  "\<exists>e h' option rest.
     wikipedia_body sample_env (clean_query ''Mercury'') [] = (Inl e, h')
     \<and> exc_class e = DisambiguationError (option # rest)
     \<and> wikipedia_page sample_env h' option = Inr (WikipediaPage ''Mercury (planet)'')
     \<and> page_summary sample_env (h' @ [WikipediaPageCall option]) (WikipediaPage ''Mercury (planet)'')
        = Inr (replicate 600 (CHR ''a''))"
proof -
  have c: "clean_query ''Mercury'' = ''Mercury''"
    by (simp add: clean_query_def strip_def replace_def)
  show ?thesis
    unfolding c ambiguous_body
    by (simp add: sample_env_def)
qed

theorem wikipedia_summary_500_witness:
  "fst (safe_wikipedia_search sample_env ''Alan+Turing'' []) = Inr (replicate 500 (CHR ''a''))
   \<and> fst (safe_wikipedia_search sample_env ''Mercury'' []) = Inr (replicate 500 (CHR ''a''))
   \<and> length (replicate 500 (CHR ''a'')) \<le> 500"
  using wikipedia_summary_500[of sample_env "[]" "''Alan+Turing''" "WikipediaPage ''Alan Turing''"
      "replicate 600 (CHR ''a'')", OF disjI1, OF direct_example]
    wikipedia_summary_500[of sample_env "[]" "''Mercury''" "WikipediaPage ''Mercury (planet)''"
      "replicate 600 (CHR ''a'')", OF disjI2, OF disambiguation_example]
  by simp

section \<open>The prompt\<close>

lemma split_lines_not_Nil: "split_lines s \<noteq> []"
  by (induction s) (auto split: list.split)

lemma split_lines_one: "CHR 0x0A \<notin> set l \<Longrightarrow> split_lines l = [l]"
  by (induction l) auto

lemma split_lines_append:
  "split_lines (a @ CHR 0x0A # b) = split_lines a @ split_lines b"
proof (induction a)
  case Nil
  show ?case by simp
next
  case (Cons c a)
  obtain l ls where s: "split_lines a = l # ls"
    using split_lines_not_Nil[of a] by (cases "split_lines a") auto
  show ?case
    using Cons s by simp
qed

lemma split_lines_join:
  "xs \<noteq> [] \<Longrightarrow> split_lines (join newline xs) = concat (map split_lines xs)"
proof (induction newline xs rule: join.induct)
  case (3 x y ys)
  then show ?case
    by (simp add: newline_def split_lines_append)
qed simp_all

lemma tool_lines:
  "split_lines tool_descriptions =
    [''Wikipedia: Get detailed explanations and summaries from Wikipedia. who, what, when, where, why, how, story.'',
     ''DuckDuckGo: Search the web for current information. Input: search query. who, what, when, where, why, how.'',
     ''BasicMath: Performs basic mathematical calculations. Input: mathematical expression using +, -, *, /, ().'',
     ''ArXiv: Searches arXiv for scientific papers. research paper topic or keywords.'',
     ''PubMed: Searches PubMed for medical research. research paper on medical topic or keywords.'']"
  unfolding tool_descriptions_def tools_def
  by (simp add: split_lines_join split_lines_one del: join.simps split_lines.simps)

lemma prompt_lines:
  "split_lines CUSTOM_PROMPT =
[''You are a helpful research assistant that finds information using the available tools. Follow these guidelines strictly:'',
  [], ''Available tools:'', [],
  ''Wikipedia: Get detailed explanations and summaries from Wikipedia. who, what, when, where, why, how, story.'',
  ''DuckDuckGo: Search the web for current information. Input: search query. who, what, when, where, why, how.'',
  ''BasicMath: Performs basic mathematical calculations. Input: mathematical expression using +, -, *, /, ().'',
  ''ArXiv: Searches arXiv for scientific papers. research paper topic or keywords.'',
  ''PubMed: Searches PubMed for medical research. research paper on medical topic or keywords.'',
  [], ''Instructions:'',
  ''. Details from Internal Knowledge: Related information you already know'',
  ''. Add line breaks between sections'',
  ''. Use the exact tool name from the list above'',
  ''. Keep queries simple and clear'',
  ''. Use tools according to the type of information needed'',
  ''. In case of research paper only use ArXiv and Pubmed'',
  ''. Summarize information from multiple sources when relevant'',
  ''. Stop as soon as you have a clear answer with reference links'', [],
  ''Use this exact format:'', [],
  ''Question: the input question you must answer'',
  ''Thought: analyze the question and decide which tool to use'',
  ''Action: use EXACTLY one of these tools: Wikipedia, DuckDuckGo, BasicMath, ArXiv, or PubMed'',
  ''Action Input: just the plain search query or math expression'',
  ''Observation: the result of the action'',
  ''... (this Thought/Action/Action Input/Observation can repeat up to 3 times if needed)'',
  ''Thought: I now know the final answer'',
  ''Final Answer: provide a complete answer based on the information gathered with link (Details from Web Search: '',
  ''- First result title and brief description'',
  ''- Second result title and brief description'', [], ''References:'',
  ''[1] link1'', ''[2] link2'', ''[etc])'', [], ''Begin!'', [],
  ''Question: {input}'', ''Thought:'']"
  unfolding CUSTOM_PROMPT_def
  by (simp add: split_lines_join tool_lines split_lines_one del: join.simps split_lines.simps)

text \<open>
  C8. The prompt has a line that starts with each of the labels \<^verbatim>\<open>Question:\<close>,
  \<^verbatim>\<open>Thought:\<close>, \<^verbatim>\<open>Action:\<close>, \<^verbatim>\<open>Action Input:\<close>, \<^verbatim>\<open>Observation:\<close> and \<^verbatim>\<open>Final Answer:\<close>; its one
  \<^verbatim>\<open>Action:\<close> line names Wikipedia, DuckDuckGo, BasicMath, ArXiv and PubMed as the
  tools to choose from; these five are the names of the registry, in its order; and
  the prompt is the prefix the module gives the agent.
\<close>

theorem prompt_protocol:
  "list_all (\<lambda>label. list_ex (prefix label) (split_lines CUSTOM_PROMPT))
     [''Question:'', ''Thought:'', ''Action:'', ''Action Input:'', ''Observation:'',
      ''Final Answer:'']
   \<and> filter (prefix ''Action:'') (split_lines CUSTOM_PROMPT)
       = [''Action: use EXACTLY one of these tools: Wikipedia, DuckDuckGo, BasicMath, ArXiv, or PubMed'']
   \<and> map name tools = [''Wikipedia'', ''DuckDuckGo'', ''BasicMath'', ''ArXiv'', ''PubMed'']
   \<and> prefix_kw agent_kwargs = CUSTOM_PROMPT"
  by (simp add: prompt_lines tools_def agent_kwargs_def)

section \<open>The bound on the calls to the Model\<close>

lemma forced_final_calls:
  "model_calls (forced_final cap question st calls)
     = calls @ [final_prompt cap (transcript st) question]"
  by (simp add: forced_final_def Let_def split: sum.split parsed.split)

lemma forced_final_status:
  "run_status (final_state (forced_final cap question st calls)) \<noteq> Pending"
  by (simp add: forced_final_def Let_def split: sum.split parsed.split)

lemma agent_loop_calls:
  "length (model_calls (agent_loop cap maxit question st calls))
     \<le> length calls + (maxit - iterations_used st) + 1"
proof (induction cap maxit question st calls rule: agent_loop.induct)
  case (1 cap maxit question st calls)
  let ?p = "build_prompt cap (transcript st) question"
  show ?case
  proof (cases "maxit \<le> iterations_used st")
    case True
    then show ?thesis
      by (subst agent_loop.simps) (simp add: forced_final_calls)
  next
    case False
    show ?thesis
    proof (cases "complete cap calls ?p")
      case (Inl e)
      with False show ?thesis
        by (subst agent_loop.simps) (simp add: Let_def)
    next
      case (Inr completion)
      show ?thesis
      proof (cases "parse cap completion")
        case (FinalAnswer t)
        with False Inr show ?thesis
          by (subst agent_loop.simps) (simp add: Let_def)
      next
        case (Action tool_name tool_input)
        from "1.IH"(1)[OF False refl Inr Action] False Inr Action show ?thesis
          by (subst agent_loop.simps) (simp add: Let_def)
      next
        case (ParseError raw)
        from "1.IH"(2)[OF False refl Inr ParseError] False Inr ParseError show ?thesis
          by (subst agent_loop.simps) (simp add: Let_def)
      qed
    qed
  qed
qed

lemma agent_loop_status:
  "run_status (final_state (agent_loop cap maxit question st calls)) \<noteq> Pending"
proof (induction cap maxit question st calls rule: agent_loop.induct)
  case (1 cap maxit question st calls)
  let ?p = "build_prompt cap (transcript st) question"
  show ?case
  proof (cases "maxit \<le> iterations_used st")
    case True
    then show ?thesis
      by (subst agent_loop.simps) (simp add: forced_final_status)
  next
    case False
    show ?thesis
    proof (cases "complete cap calls ?p")
      case (Inl e)
      with False show ?thesis
        by (subst agent_loop.simps) (simp add: Let_def)
    next
      case (Inr completion)
      show ?thesis
      proof (cases "parse cap completion")
        case (FinalAnswer t)
        with False Inr show ?thesis
          by (subst agent_loop.simps) (simp add: Let_def)
      next
        case (Action tool_name tool_input)
        from "1.IH"(1)[OF False refl Inr Action] False Inr Action show ?thesis
          by (subst agent_loop.simps) (simp add: Let_def)
      next
        case (ParseError raw)
        from "1.IH"(2)[OF False refl Inr ParseError] False Inr ParseError show ?thesis
          by (subst agent_loop.simps) (simp add: Let_def)
      qed
    qed
  qed
qed

text \<open>
  C2. For every Model, parser, registry and question, a run of the loop sends at most
  \<open>maxit + 1\<close> prompts to the Model; the module configures \<^verbatim>\<open>max_iterations\<close> as 3 and
  the early stopping method as \<^verbatim>\<open>generate\<close>, so at most 4; and the run ends in a status
  other than Pending (\<open>run\<close> is a total function: every run terminates).
\<close>

theorem run_model_calls:
  "length (model_calls (run cap maxit question)) \<le> maxit + 1
   \<and> max_iterations agent_kwargs = 3
   \<and> early_stopping_method agent_kwargs = ''generate''
   \<and> length (model_calls (run cap (max_iterations agent_kwargs) question)) \<le> 4
   \<and> run_status (final_state (run cap maxit question)) \<noteq> Pending"
  using agent_loop_calls[of cap maxit question initial_state "[]"]
    agent_loop_calls[of cap 3 question initial_state "[]"]
    agent_loop_status[of cap maxit question initial_state "[]"]
  by (simp add: run_def initial_state_def agent_kwargs_def)

end
